theory Spec2Isabelle
  imports Complex_Main
begin

section \<open>Gaussian NeRF field and model: a shallow embedding\<close>

text \<open>
  The development follows \<^verbatim>\<open>nerfstudio/fields/gaussian_NeRF_Field.py\<close> and
  \<^verbatim>\<open>nerfstudio/models/gaussian_NeRF.py\<close>. Tensor entries are real numbers: float32
  rounding and overflow are not modelled. The three special values that torch produces
  where a real result does not exist (plus and minus infinity, NaN) are modelled
  explicitly where the code can produce them, namely after the inverse normal CDF.
  Every Python exception is a value of type \<open>py_error\<close>.
\<close>

subsection \<open>Errors and numeric helpers\<close>

datatype py_error = AssertionError | RuntimeError | UnboundLocalError

text \<open>Python's \<^verbatim>\<open>int(x)\<close> on a float truncates toward zero.\<close>

definition py_int :: "real \<Rightarrow> int" where
  "py_int x = (if 0 \<le> x then \<lfloor>x\<rfloor> else \<lceil>x\<rceil>)"

text \<open>
  \<^verbatim>\<open>torch.linspace(start, end, steps)\<close>: a negative number of steps raises, one step gives
  \<^verbatim>\<open>[start]\<close>, otherwise the points are equally spaced with both ends included.
\<close>

definition linspace :: "real \<Rightarrow> real \<Rightarrow> int \<Rightarrow> py_error + real list" where
  "linspace start stop steps =
     (if steps < 0 then Inl RuntimeError
      else if steps = 1 then Inr [start]
      else Inr (map (\<lambda>i. start + real i * ((stop - start) / real_of_int (steps - 1)))
                    [0..<nat steps]))"

subsection \<open>The Gaussian kernel\<close>

text \<open>
  \<^verbatim>\<open>
  def make_gaussian_kernel(sigma):
      ks = int(sigma * 5)
      if ks % 2 == 0:
          ks += 1
      ts = torch.linspace(-ks // 2, ks // 2 + 1, ks)
      gauss = torch.exp((-(ts / sigma)**2 / 2))
      kernel = gauss / gauss.sum()
      return kernel
  \<close>
  In Python \<^verbatim>\<open>-ks // 2\<close> is the floor division of \<^verbatim>\<open>-ks\<close>, which is \<open>div\<close> on \<open>int\<close>.
  For \<^verbatim>\<open>sigma = 0\<close> torch divides by zero and yields a NaN kernel; the real-valued model
  says nothing useful there (\<open>x / 0 = 0\<close> in HOL), and no statement below uses it.
\<close>

definition kernel_size :: "real \<Rightarrow> int" where
  "kernel_size sg = (let ks = py_int (sg * 5) in if ks mod 2 = 0 then ks + 1 else ks)"

definition make_gaussian_kernel :: "real \<Rightarrow> py_error + real list" where
  "make_gaussian_kernel sg =
     (let ks = kernel_size sg in
      case linspace (real_of_int ((- ks) div 2)) (real_of_int (ks div 2 + 1)) ks of
        Inl e \<Rightarrow> Inl e
      | Inr ts \<Rightarrow>
          (let gauss = map (\<lambda>t. exp (- ((t / sg) ^ 2) / 2)) ts
           in Inr (map (\<lambda>g. g / sum_list gauss) gauss)))"

subsection \<open>Volumes\<close>

text \<open>
  A three-dimensional tensor: its shape and its entries. Entries outside the shape are
  never read by the operations below. The batch and channel axes that the code adds
  (\<^verbatim>\<open>vol[None, None, ...]\<close>) always have size one and are left out.
\<close>

record 'a vol =
  nD :: nat
  nH :: nat
  nW :: nat
  val :: "nat \<Rightarrow> nat \<Rightarrow> nat \<Rightarrow> 'a"

definition map_vol :: "('a \<Rightarrow> 'b) \<Rightarrow> 'a vol \<Rightarrow> 'b vol" where
  "map_vol g v = \<lparr>nD = nD v, nH = nH v, nW = nW v, val = (\<lambda>d h w. g (val v d h w))\<rparr>"

definition relu :: "real \<Rightarrow> real" where
  "relu x = max 0 x"

definition sigmoid :: "real \<Rightarrow> real" where
  "sigmoid x = 1 / (1 + exp (- x))"

text \<open>\<^verbatim>\<open>vol_in.permute(0, 1, 4, 2, 3)\<close>: the last spatial axis becomes the first.\<close>

definition permute :: "'a vol \<Rightarrow> 'a vol" where
  "permute v = \<lparr>nD = nW v, nH = nD v, nW = nH v, val = (\<lambda>a b c. val v b c a)\<rparr>"

text \<open>
  \<^verbatim>\<open>F.conv3d(vol_in, k1d, stride=1, padding=(len(k) // 2, 0, 0))\<close> with a kernel of shape
  \<^verbatim>\<open>(len(k), 1, 1)\<close>: a cross-correlation along the first spatial axis of the input padded
  with zeros. torch raises when the kernel is empty, or larger than the padded input along
  some axis.
\<close>

definition padded :: "real vol \<Rightarrow> nat \<Rightarrow> nat \<Rightarrow> nat \<Rightarrow> nat \<Rightarrow> real" where
  "padded v p i h w = (if p \<le> i \<and> i - p < nD v then val v (i - p) h w else 0)"

definition conv3d :: "real vol \<Rightarrow> real list \<Rightarrow> py_error + real vol" where
  "conv3d v k =
     (let K = length k; p = K div 2 in
      if K = 0 \<or> nD v + 2 * p < K \<or> nH v < 1 \<or> nW v < 1 then Inl RuntimeError
      else Inr \<lparr>nD = nD v + 2 * p - K + 1, nH = nH v, nW = nW v,
                val = (\<lambda>d h w. \<Sum>j\<leftarrow>[0..<K]. padded v p (d + j) h w * k ! j)\<rparr>)"

text \<open>
  \<^verbatim>\<open>
  def apply_3d_gaussian_blur(self, input_grid):
      vol = input_grid
      k = self.gaussian_kernel
      vol_in = vol[None, None, ...]
      k1d = k[None, None, :, None, None]
      for i in range(3):
          vol_in = vol_in.permute(0, 1, 4, 2, 3)
          vol_in = F.conv3d(vol_in, k1d, stride=1, padding=(len(k) // 2, 0, 0))
      vol_3d_sep = vol_in
      return vol_3d_sep
  \<close>
  The loop body, and the loop run \<open>n\<close> times.
\<close>

fun blur_loop :: "nat \<Rightarrow> real list \<Rightarrow> real vol \<Rightarrow> py_error + real vol" where
  "blur_loop 0 k v = Inr v"
| "blur_loop (Suc n) k v =
     (case conv3d (permute v) k of
        Inl e \<Rightarrow> Inl e
      | Inr v' \<Rightarrow> blur_loop n k v')"

definition apply_3d_gaussian_blur :: "real list \<Rightarrow> real vol \<Rightarrow> py_error + real vol" where
  "apply_3d_gaussian_blur k input_grid = blur_loop 3 k input_grid"

text \<open>
  The direct three-dimensional convolution that the separable one is compared with: the
  cross-correlation of the zero-padded volume with the outer product \<open>k \<otimes> k \<otimes> k\<close>,
  padding \<open>length k div 2\<close> on every axis. This definition follows the specification,
  not the source.
\<close>

definition padded3 :: "real vol \<Rightarrow> nat \<Rightarrow> nat \<Rightarrow> nat \<Rightarrow> nat \<Rightarrow> real" where
  "padded3 v p i j l =
     (if p \<le> i \<and> i - p < nD v \<and> p \<le> j \<and> j - p < nH v \<and> p \<le> l \<and> l - p < nW v
      then val v (i - p) (j - p) (l - p) else 0)"

definition direct_conv3d_spec :: "real list \<Rightarrow> real vol \<Rightarrow> nat \<Rightarrow> nat \<Rightarrow> nat \<Rightarrow> real" where
  "direct_conv3d_spec k v d h w =
     (let K = length k; p = K div 2 in
      \<Sum>a\<leftarrow>[0..<K]. \<Sum>b\<leftarrow>[0..<K]. \<Sum>c\<leftarrow>[0..<K].
        padded3 v p (d + a) (h + b) (w + c) * (k ! a * k ! b * k ! c))"

subsection \<open>Floating-point special values\<close>

text \<open>
  The result type of the operations that can leave the real numbers: a finite value, plus
  or minus infinity, or NaN, with the IEEE rules for the special values (rounding,
  overflow of finite values and the sign of zero are not modelled; \<open>1 / 0\<close> is taken as
  plus infinity).
\<close>

datatype fl = Fin real | PInf | NInf | NaN

fun fl_neg :: "fl \<Rightarrow> fl" where
  "fl_neg (Fin a) = Fin (- a)"
| "fl_neg PInf = NInf"
| "fl_neg NInf = PInf"
| "fl_neg NaN = NaN"

fun fl_add :: "fl \<Rightarrow> fl \<Rightarrow> fl" where
  "fl_add NaN _ = NaN"
| "fl_add _ NaN = NaN"
| "fl_add (Fin a) (Fin b) = Fin (a + b)"
| "fl_add PInf NInf = NaN"
| "fl_add NInf PInf = NaN"
| "fl_add PInf _ = PInf"
| "fl_add _ PInf = PInf"
| "fl_add NInf _ = NInf"
| "fl_add _ NInf = NInf"

definition fl_sub :: "fl \<Rightarrow> fl \<Rightarrow> fl" where
  "fl_sub a b = fl_add a (fl_neg b)"

definition fl_sign_inf :: "real \<Rightarrow> fl" where
  "fl_sign_inf a = (if 0 < a then PInf else if a < 0 then NInf else NaN)"

fun fl_mul :: "fl \<Rightarrow> fl \<Rightarrow> fl" where
  "fl_mul NaN _ = NaN"
| "fl_mul _ NaN = NaN"
| "fl_mul (Fin a) (Fin b) = Fin (a * b)"
| "fl_mul (Fin a) PInf = fl_sign_inf a"
| "fl_mul (Fin a) NInf = fl_sign_inf (- a)"
| "fl_mul PInf (Fin b) = fl_sign_inf b"
| "fl_mul NInf (Fin b) = fl_sign_inf (- b)"
| "fl_mul PInf PInf = PInf"
| "fl_mul NInf NInf = PInf"
| "fl_mul PInf NInf = NInf"
| "fl_mul NInf PInf = NInf"

fun fl_inv :: "fl \<Rightarrow> fl" where
  "fl_inv (Fin a) = (if a = 0 then PInf else Fin (1 / a))"
| "fl_inv PInf = Fin 0"
| "fl_inv NInf = Fin 0"
| "fl_inv NaN = NaN"

definition fl_div :: "fl \<Rightarrow> fl \<Rightarrow> fl" where
  "fl_div a b = fl_mul a (fl_inv b)"

fun fl_sqrt :: "fl \<Rightarrow> fl" where
  "fl_sqrt (Fin a) = (if a < 0 then NaN else Fin (sqrt a))"
| "fl_sqrt PInf = PInf"
| "fl_sqrt NInf = NaN"
| "fl_sqrt NaN = NaN"

text \<open>\<^verbatim>\<open>torch.clamp(x, 0, 1)\<close>: NaN stays NaN.\<close>

fun fl_clamp01 :: "fl \<Rightarrow> fl" where
  "fl_clamp01 (Fin a) = Fin (max 0 (min 1 a))"
| "fl_clamp01 PInf = Fin 1"
| "fl_clamp01 NInf = Fin 0"
| "fl_clamp01 NaN = NaN"

fun is_finite :: "fl \<Rightarrow> bool" where
  "is_finite (Fin a) = True"
| "is_finite _ = False"

definition fl_sum :: "fl list \<Rightarrow> fl" where
  "fl_sum xs = foldl fl_add (Fin 0) xs"

text \<open>\<^verbatim>\<open>t.mean()\<close>: the sum divided by the number of entries (NaN for an empty tensor).\<close>

definition fl_mean :: "fl list \<Rightarrow> fl" where
  "fl_mean xs = fl_div (fl_sum xs) (Fin (real (length xs)))"

text \<open>\<^verbatim>\<open>g.norm(2, dim=1)\<close> on one row of three entries.\<close>

definition fl_norm2 :: "fl \<times> fl \<times> fl \<Rightarrow> fl" where
  "fl_norm2 g = (case g of (a, b, c) \<Rightarrow>
     fl_sqrt (fl_add (fl_add (fl_mul a a) (fl_mul b b)) (fl_mul c c)))"

subsection \<open>Sampling primitives of torch\<close>

text \<open>
  \<^verbatim>\<open>F.grid_sample(input, grid, align_corners=True)\<close> on a five-dimensional input, at one
  point \<open>(x, y, z)\<close> of the grid: trilinear interpolation, zero padding outside the
  volume. The first coordinate indexes the last axis (\<open>W\<close>), the third the first
  (\<open>D\<close>); with aligned corners \<open>-1\<close> and \<open>1\<close> are the centres of the first and the
  last voxel.
\<close>

type_synonym point = "real \<times> real \<times> real"

definition unnormalize :: "real \<Rightarrow> nat \<Rightarrow> real" where
  "unnormalize c n = ((c + 1) / 2) * (real n - 1)"

definition voxel :: "real vol \<Rightarrow> int \<Rightarrow> int \<Rightarrow> int \<Rightarrow> real" where
  "voxel v z y x =
     (if 0 \<le> z \<and> z < int (nD v) \<and> 0 \<le> y \<and> y < int (nH v) \<and> 0 \<le> x \<and> x < int (nW v)
      then val v (nat z) (nat y) (nat x) else 0)"

definition corner_weight :: "real \<Rightarrow> int \<Rightarrow> real" where
  "corner_weight i c = (if c = \<lfloor>i\<rfloor> then real_of_int \<lfloor>i\<rfloor> + 1 - i else i - real_of_int \<lfloor>i\<rfloor>)"

definition grid_sample :: "real vol \<Rightarrow> point \<Rightarrow> real" where
  "grid_sample v pt = (case pt of (x, y, z) \<Rightarrow>
     (let ix = unnormalize x (nW v); iy = unnormalize y (nH v); iz = unnormalize z (nD v)
      in \<Sum>cz\<leftarrow>[\<lfloor>iz\<rfloor>, \<lfloor>iz\<rfloor> + 1]. \<Sum>cy\<leftarrow>[\<lfloor>iy\<rfloor>, \<lfloor>iy\<rfloor> + 1]. \<Sum>cx\<leftarrow>[\<lfloor>ix\<rfloor>, \<lfloor>ix\<rfloor> + 1].
           voxel v cz cy cx * (corner_weight ix cx * corner_weight iy cy * corner_weight iz cz)))"

text \<open>
  \<^verbatim>\<open>F.interpolate(input, scale_factor=2)\<close>: the default mode is nearest neighbour, every
  axis doubles and entry \<open>i\<close> of the output is entry \<open>i div 2\<close> of the input.
\<close>

definition interpolate2 :: "'a vol \<Rightarrow> 'a vol" where
  "interpolate2 v = \<lparr>nD = 2 * nD v, nH = 2 * nH v, nW = 2 * nW v,
                      val = (\<lambda>d h w. val v (d div 2) (h div 2) (w div 2))\<rparr>"

text \<open>
  \<^verbatim>\<open>Normal(0, 1).icdf(value)\<close> of torch.distributions, computed as
  \<^verbatim>\<open>erfinv(2 * value - 1) * sqrt(2)\<close> in float32: minus infinity at 0, plus infinity at 1
  and NaN outside the unit interval. Strictly inside the interval the result is the
  parameter \<open>quantile\<close>: the float32 value of the quantile function of the standard
  normal distribution, which is a special value itself where \<^verbatim>\<open>2 * value - 1\<close> rounds to
  \<open>-1\<close> or \<open>1\<close> (minus infinity for every positive value up to \<open>2\<^sup>-\<^sup>2\<^sup>6\<close>).
\<close>

definition icdf :: "(real \<Rightarrow> fl) \<Rightarrow> real \<Rightarrow> fl" where
  "icdf quantile value =
     (if value < 0 \<or> 1 < value then NaN
      else if value = 0 then NInf
      else if value = 1 then PInf
      else quantile value)"




text \<open>
  \<^verbatim>\<open>np.linspace(-1, 1, n)\<close> and the local function \<^verbatim>\<open>cartesian_product\<close> of
  \<^verbatim>\<open>get_certified_radius\<close>, applied to three copies of one array: all triples, the first
  coordinate varying slowest.
\<close>

definition cartesian_product :: "real list \<Rightarrow> real list \<Rightarrow> real list \<Rightarrow> point list" where
  "cartesian_product xs ys zs = concat (map (\<lambda>x. concat (map (\<lambda>y. map (\<lambda>z. (x, y, z)) zs) ys)) xs)"

subsection \<open>The field\<close>

text \<open>
  The attributes of \<^verbatim>\<open>TCNNGaussianNeRFField\<close> that the density and the certified radius
  depend on. The hash-grid network, the direction encoding and the colour head are
  external (tiny-cuda-nn) and are not part of the record.
\<close>

record TCNNGaussianNeRFField =
  f :: "real vol"
  f_transition_function :: string
  occupancy_to_density_transformation_function :: string
  sigma :: real
  gaussian_kernel :: "real list"
  g_transition_function :: string
  g_transition_alpha :: real
  g_transition_alpha_increments :: real
  density_multiplier :: real
  use_appearance_embedding :: bool

text \<open>
  Lines 150 to 155 of the constructor:
  \<^verbatim>\<open>
  if f_init == "ones":
      self.f = Parameter(torch.ones(R, R, R))
  elif f_init == "zeros":
      self.f = Parameter(torch.zeros(R, R, R))
  else:
      self.f = Parameter((1/2)*(torch.rand(R, R, R))+(1/2))
  \<close>
  The values drawn by \<^verbatim>\<open>torch.rand\<close> are the parameter \<open>rand\<close>.
\<close>

definition init_f :: "string \<Rightarrow> nat \<Rightarrow> (nat \<Rightarrow> nat \<Rightarrow> nat \<Rightarrow> real) \<Rightarrow> real vol" where
  "init_f f_init R rand =
     (if f_init = ''ones'' then \<lparr>nD = R, nH = R, nW = R, val = (\<lambda>i j l. 1)\<rparr>
      else if f_init = ''zeros'' then \<lparr>nD = R, nH = R, nW = R, val = (\<lambda>i j l. 0)\<rparr>
      else \<lparr>nD = R, nH = R, nW = R, val = (\<lambda>i j l. (1 / 2) * rand i j l + (1 / 2))\<rparr>)"

text \<open>
  \<^verbatim>\<open>__init__\<close>, in the order of the source: the assertion on \<^verbatim>\<open>num_images\<close>, the grid
  (torch refuses a negative size), the plain assignments, the kernel. No statement of the
  constructor looks at the two transition-function strings.
\<close>

definition TCNNGaussianNeRFField_init ::
  "real \<Rightarrow> string \<Rightarrow> string \<Rightarrow> int \<Rightarrow> string \<Rightarrow> real \<Rightarrow> real \<Rightarrow> string \<Rightarrow> real \<Rightarrow> bool \<Rightarrow> nat option
     \<Rightarrow> (nat \<Rightarrow> nat \<Rightarrow> nat \<Rightarrow> real) \<Rightarrow> py_error + TCNNGaussianNeRFField" where
  "TCNNGaussianNeRFField_init sg f_init f_tf f_grid_resolution g_tf alpha increments o2d multiplier
       use_embedding num_images rand =
     (if use_embedding \<and> num_images = None then Inl AssertionError
      else if f_grid_resolution < 0 then Inl RuntimeError
      else case make_gaussian_kernel sg of
             Inl e \<Rightarrow> Inl e
           | Inr k \<Rightarrow>
               Inr \<lparr>f = init_f f_init (nat f_grid_resolution) rand,
                    f_transition_function = f_tf,
                    occupancy_to_density_transformation_function = o2d,
                    sigma = sg,
                    gaussian_kernel = k,
                    g_transition_function = g_tf,
                    g_transition_alpha = alpha,
                    g_transition_alpha_increments = increments,
                    density_multiplier = multiplier,
                    use_appearance_embedding = use_embedding\<rparr>)"

text \<open>
  The same four lines open both queries:
  \<^verbatim>\<open>
  if self.f_transition_function == "relu":
      smoothed_grid = self.apply_3d_gaussian_blur(torch.nn.ReLU()(self.f))
  elif self.f_transition_function == "sigmoid":
      smoothed_grid = self.apply_3d_gaussian_blur(torch.nn.Sigmoid()(self.f))
  \<close>
  There is no \<^verbatim>\<open>else\<close>: with any other string \<^verbatim>\<open>smoothed_grid\<close> stays unbound, and the
  next statement that reads it raises \<^verbatim>\<open>UnboundLocalError\<close>. Both callers read it in their
  next statement that can fail.
\<close>

definition smoothed_grid :: "TCNNGaussianNeRFField \<Rightarrow> py_error + real vol" where
  "smoothed_grid fld =
     (if f_transition_function fld = ''relu''
      then apply_3d_gaussian_blur (gaussian_kernel fld) (map_vol relu (f fld))
      else if f_transition_function fld = ''sigmoid''
      then apply_3d_gaussian_blur (gaussian_kernel fld) (map_vol sigmoid (f fld))
      else Inl UnboundLocalError)"

text \<open>
  \<^verbatim>\<open>
  if self.g_transition_function == "sigmoid":
      arg_maxed_smoothed_grid = torch.nn.Sigmoid()(self.g_transition_alpha*(smoothed_grid-(1/2)))
  else:
      arg_maxed_smoothed_grid = smoothed_grid
  \<close>
\<close>

definition arg_maxed_smoothed_grid :: "TCNNGaussianNeRFField \<Rightarrow> real vol \<Rightarrow> real vol" where
  "arg_maxed_smoothed_grid fld sm =
     (if g_transition_function fld = ''sigmoid''
      then map_vol (\<lambda>s. sigmoid (g_transition_alpha fld * (s - (1 / 2)))) sm
      else sm)"

text \<open>
  \<^verbatim>\<open>get_density\<close>. The positions are taken after the scene contraction (external), the
  hash-grid network is the parameter \<open>mlp_base\<close> (its output already split into the
  base density and the geometric feature), and \<^verbatim>\<open>trunc_exp\<close>, which is defined in
  \<^verbatim>\<open>nerfstudio.field_components.activations\<close>, is a parameter too.
  \<^verbatim>\<open>
  positions_rescaled = (positions_flat*2)-1
  ...
  density_before_activation = F.grid_sample(arg_maxed_smoothed_grid,
                                  positions_rescaled[None,None,None,...], align_corners=True)
  density_before_activation = density_before_activation.view(-1,1)
  density = self.density_multiplier * trunc_exp(density_before_activation.to(positions))
  return density, base_mlp_out
  \<close>
\<close>

definition get_density ::
  "(real \<Rightarrow> real) \<Rightarrow> (point \<Rightarrow> real \<times> 'g) \<Rightarrow> TCNNGaussianNeRFField \<Rightarrow> point list
     \<Rightarrow> py_error + (real list \<times> 'g list)" where
  "get_density trunc_exp mlp_base fld positions_flat =
     (let base_mlp_out = map (\<lambda>pt. snd (mlp_base pt)) positions_flat;
          positions_rescaled = map (\<lambda>(x, y, z). (x * 2 - 1, y * 2 - 1, z * 2 - 1)) positions_flat
      in case smoothed_grid fld of
           Inl e \<Rightarrow> Inl e
         | Inr sm \<Rightarrow>
             (let density_before_activation =
                    map (grid_sample (arg_maxed_smoothed_grid fld sm)) positions_rescaled;
                  density = map (\<lambda>d. density_multiplier fld * trunc_exp d) density_before_activation
              in Inr (density, base_mlp_out)))"

text \<open>
  What the specification says the density query does (section 4.3, steps 3 and 4): the
  sampled scalar goes through \<open>sigma \<cdot> \<Phi>\<^sup>-\<^sup>1\<close> before the activation. This definition
  follows the specification, not the source.
\<close>

definition get_density_spec ::
  "(real \<Rightarrow> real) \<Rightarrow> (real \<Rightarrow> real) \<Rightarrow> TCNNGaussianNeRFField \<Rightarrow> point list \<Rightarrow> py_error + real list" where
  "get_density_spec Phi_inv trunc_exp fld positions_flat =
     (let positions_rescaled = map (\<lambda>(x, y, z). (x * 2 - 1, y * 2 - 1, z * 2 - 1)) positions_flat
      in case smoothed_grid fld of
           Inl e \<Rightarrow> Inl e
         | Inr sm \<Rightarrow>
             Inr (map (\<lambda>pt. density_multiplier fld *
                     trunc_exp (sigma fld * Phi_inv (grid_sample (arg_maxed_smoothed_grid fld sm) pt)))
                   positions_rescaled))"

text \<open>
  \<^verbatim>\<open>get_certified_radius\<close>. \<^verbatim>\<open>torch.autograd.grad\<close> is the parameter \<open>autograd\<close>: given
  the function from one position to its output and the positions, it returns one gradient
  row per position, or raises.
  \<^verbatim>\<open>
  space_discrete_sample_indexes = np.linspace(-1, 1, 2*(self.f.shape[-1]))
  positions = cartesian_product(space_discrete_sample_indexes, (same), (same))
  ...
  radii = self.sigma * m.icdf(F.interpolate(smoothed_grid,scale_factor=2))
  radii = radii.squeeze()
  output_aux = (self.sigma * m.icdf(F.grid_sample(smoothed_grid,
                    positions[None,None,None,...],align_corners=True))).squeeze()
  sdf_grads = torch.autograd.grad(outputs=output_aux, inputs=positions,
                    grad_outputs=torch.ones_like(output_aux), ...)[0]
  eikonal_loss = ((sdf_grads.norm(2, dim=1) - 1) ** 2).mean()
  return radii, eikonal_loss
  \<close>
\<close>

type_synonym autograd_grad = "(point \<Rightarrow> fl) \<Rightarrow> point list \<Rightarrow> py_error + (fl \<times> fl \<times> fl) list"

definition lattice :: "TCNNGaussianNeRFField \<Rightarrow> py_error + point list" where
  "lattice fld =
     (case linspace (- 1) 1 (2 * int (nW (f fld))) of
        Inl e \<Rightarrow> Inl e
      | Inr space_discrete_sample_indexes \<Rightarrow>
          Inr (cartesian_product space_discrete_sample_indexes space_discrete_sample_indexes
                 space_discrete_sample_indexes))"

definition output_aux :: "(real \<Rightarrow> fl) \<Rightarrow> TCNNGaussianNeRFField \<Rightarrow> real vol \<Rightarrow> point \<Rightarrow> fl" where
  "output_aux Phi_inv fld sm pt = fl_mul (Fin (sigma fld)) (icdf Phi_inv (grid_sample sm pt))"

definition eikonal :: "(fl \<times> fl \<times> fl) list \<Rightarrow> fl" where
  "eikonal sdf_grads =
     fl_mean (map (\<lambda>g. fl_mul (fl_sub (fl_norm2 g) (Fin 1)) (fl_sub (fl_norm2 g) (Fin 1))) sdf_grads)"

definition get_certified_radius ::
  "(real \<Rightarrow> fl) \<Rightarrow> autograd_grad \<Rightarrow> TCNNGaussianNeRFField \<Rightarrow> py_error + (fl vol \<times> fl)" where
  "get_certified_radius Phi_inv autograd fld =
     (case lattice fld of
        Inl e \<Rightarrow> Inl e
      | Inr positions \<Rightarrow>
          (case smoothed_grid fld of
             Inl e \<Rightarrow> Inl e
           | Inr sm \<Rightarrow>
               (let radii = map_vol (\<lambda>s. fl_mul (Fin (sigma fld)) (icdf Phi_inv s)) (interpolate2 sm)
                in case autograd (output_aux Phi_inv fld sm) positions of
                     Inl e \<Rightarrow> Inl e
                   | Inr sdf_grads \<Rightarrow> Inr (radii, eikonal sdf_grads))))"


subsection \<open>The model: training callbacks\<close>

text \<open>
  The state of \<^verbatim>\<open>GaussianNeRFModel\<close> that the callbacks touch: the field and the
  occupancy grid of nerfacc (external, of an arbitrary type).
\<close>

record 'o GaussianNeRFModel =
  field :: TCNNGaussianNeRFField
  occupancy_grid :: 'o

datatype TrainingCallbackLocation = BEFORE_TRAIN_ITERATION | AFTER_TRAIN_ITERATION

record 'o TrainingCallback =
  where_to_run :: "TrainingCallbackLocation list"
  update_every_num_iters :: nat
  func :: "nat \<Rightarrow> 'o GaussianNeRFModel \<Rightarrow> 'o GaussianNeRFModel"

text \<open>
  \<^verbatim>\<open>
  def update_occupancy_grid(step: int):
      self.occupancy_grid.every_n_step(step=step, occ_eval_fn=lambda x: ...)
  def update_alpha_value(step: int):
      self.field.g_transition_alpha += self.field.g_transition_alpha_increments
  \<close>
  \<^verbatim>\<open>every_n_step\<close> belongs to nerfacc and is the parameter \<open>every_n_step\<close>; it
  changes the occupancy grid only.
\<close>

definition update_occupancy_grid ::
  "(nat \<Rightarrow> TCNNGaussianNeRFField \<Rightarrow> 'o \<Rightarrow> 'o) \<Rightarrow> nat \<Rightarrow> 'o GaussianNeRFModel \<Rightarrow> 'o GaussianNeRFModel" where
  "update_occupancy_grid every_n_step step m =
     m\<lparr>occupancy_grid := every_n_step step (field m) (occupancy_grid m)\<rparr>"

definition update_alpha_value :: "nat \<Rightarrow> 'o GaussianNeRFModel \<Rightarrow> 'o GaussianNeRFModel" where
  "update_alpha_value step m =
     m\<lparr>field := (field m)\<lparr>g_transition_alpha :=
          g_transition_alpha (field m) + g_transition_alpha_increments (field m)\<rparr>\<rparr>"

definition get_training_callbacks ::
  "(nat \<Rightarrow> TCNNGaussianNeRFField \<Rightarrow> 'o \<Rightarrow> 'o) \<Rightarrow> 'o TrainingCallback list" where
  "get_training_callbacks every_n_step =
     [\<lparr>where_to_run = [BEFORE_TRAIN_ITERATION], update_every_num_iters = 1,
       func = update_occupancy_grid every_n_step\<rparr>,
      \<lparr>where_to_run = [BEFORE_TRAIN_ITERATION], update_every_num_iters = 1,
       func = update_alpha_value\<rparr>]"

text \<open>
  Modelled from the spec: the training loop and the dispatch of callbacks
  (\<^verbatim>\<open>nerfstudio/engine/trainer.py\<close> and \<^verbatim>\<open>nerfstudio/engine/callbacks.py\<close>), which are
  not among the source files. Section 4.5 of the specification: each training iteration
  first runs the callbacks registered for the start of the iteration, in the order of
  the list, then the forward pass, the loss and the optimiser step. A callback runs at a
  location when the location is in \<^verbatim>\<open>where_to_run\<close> and the step is a multiple of
  \<^verbatim>\<open>update_every_num_iters\<close>. The optimiser step is the parameter \<open>optimizer_step\<close>;
  by section 3 gradient-based optimisation mutates the grid, and nothing else of the
  record.
\<close>

definition run_callback_at_location ::
  "nat \<Rightarrow> TrainingCallbackLocation \<Rightarrow> 'o TrainingCallback \<Rightarrow> 'o GaussianNeRFModel \<Rightarrow> 'o GaussianNeRFModel" where
  "run_callback_at_location step location cb m =
     (if location \<in> set (where_to_run cb) \<and> step mod update_every_num_iters cb = 0
      then func cb step m else m)"

definition run_callbacks ::
  "nat \<Rightarrow> TrainingCallbackLocation \<Rightarrow> 'o TrainingCallback list \<Rightarrow> 'o GaussianNeRFModel \<Rightarrow> 'o GaussianNeRFModel" where
  "run_callbacks step location cbs m = foldl (\<lambda>m' cb. run_callback_at_location step location cb m') m cbs"

definition train_iteration ::
  "(nat \<Rightarrow> TCNNGaussianNeRFField \<Rightarrow> 'o \<Rightarrow> 'o) \<Rightarrow> (nat \<Rightarrow> 'o GaussianNeRFModel \<Rightarrow> real vol)
     \<Rightarrow> nat \<Rightarrow> 'o GaussianNeRFModel \<Rightarrow> 'o GaussianNeRFModel" where
  "train_iteration every_n_step optimizer_step step m =
     (let cbs = get_training_callbacks every_n_step;
          m1 = run_callbacks step BEFORE_TRAIN_ITERATION cbs m;
          m2 = m1\<lparr>field := (field m1)\<lparr>f := optimizer_step step m1\<rparr>\<rparr>
      in run_callbacks step AFTER_TRAIN_ITERATION cbs m2)"

fun train ::
  "(nat \<Rightarrow> TCNNGaussianNeRFField \<Rightarrow> 'o \<Rightarrow> 'o) \<Rightarrow> (nat \<Rightarrow> 'o GaussianNeRFModel \<Rightarrow> real vol)
     \<Rightarrow> nat \<Rightarrow> nat \<Rightarrow> 'o GaussianNeRFModel \<Rightarrow> 'o GaussianNeRFModel" where
  "train every_n_step optimizer_step 0 step m = m"
| "train every_n_step optimizer_step (Suc n) step m =
     train every_n_step optimizer_step n (Suc step) (train_iteration every_n_step optimizer_step step m)"

subsection \<open>The model: image metrics\<close>

text \<open>
  \<^verbatim>\<open>get_image_metrics_and_images\<close>. Images other than the heat maps are values of an
  arbitrary type; the colour maps, \<^verbatim>\<open>torch.cat\<close>, \<^verbatim>\<open>torch.moveaxis\<close> and the three image
  metrics are external and are the fields of \<open>externals\<close>. A local variable of the
  Python function that may be unbound is an \<open>option\<close>, and reading it while it is
  \<open>None\<close> raises \<^verbatim>\<open>UnboundLocalError\<close>.
\<close>

record 'img externals =
  apply_colormap :: "'img \<Rightarrow> 'img"
  apply_depth_colormap :: "'img \<Rightarrow> 'img \<Rightarrow> 'img"
  cat :: "'img list \<Rightarrow> 'img"
  moveaxis :: "'img \<Rightarrow> 'img"
  psnr :: "'img \<Rightarrow> 'img \<Rightarrow> real"
  ssim :: "'img \<Rightarrow> 'img \<Rightarrow> real"
  lpips :: "'img \<Rightarrow> 'img \<Rightarrow> real"

datatype 'img picture = Image 'img | Heatmap "fl vol"

text \<open>
  One slice of the radius volume turned into a heat map:
  \<^verbatim>\<open>
  radiix = radii[self.field.f.shape[-1],:,:]
  radiix_heatmap = (radiix - min_scalar)/(max_scalar - min_scalar)
  radiix_heatmap = torch.clamp(radiix_heatmap,0,1)
  radiix_heatmap = radiix_heatmap.detach().cpu()
  radiix_heatmap = radiix_heatmap.unsqueeze(2)
  \<close>
  with \<^verbatim>\<open>min_scalar = -4*sigma\<close> and \<^verbatim>\<open>max_scalar = 4*sigma\<close>. The slice is given by its
  two sizes and its entries; an index outside the sliced axis raises \<^verbatim>\<open>IndexError\<close>,
  which is \<open>None\<close> here because the only caller catches it at once.
\<close>

definition heatmap :: "real \<Rightarrow> nat \<Rightarrow> nat \<Rightarrow> (nat \<Rightarrow> nat \<Rightarrow> fl) \<Rightarrow> fl vol" where
  "heatmap sg n1 n2 slice =
     (let min_scalar = - 4 * sg; max_scalar = 4 * sg
      in \<lparr>nD = n1, nH = n2, nW = 1,
          val = (\<lambda>i j l. fl_clamp01 (fl_div (fl_sub (slice i j) (Fin min_scalar))
                                            (Fin (max_scalar - min_scalar))))\<rparr>)"

definition radii_heatmaps ::
  "TCNNGaussianNeRFField \<Rightarrow> fl vol \<Rightarrow> fl vol option \<times> fl vol option \<times> fl vol option" where
  "radii_heatmaps fld radii =
     (let R = nW (f fld) in
      if \<not> R < nD radii then (None, None, None)
      else let radiix_heatmap = heatmap (sigma fld) (nH radii) (nW radii) (\<lambda>i j. val radii R i j) in
      if \<not> R < nH radii then (Some radiix_heatmap, None, None)
      else let radiiy_heatmap = heatmap (sigma fld) (nD radii) (nW radii) (\<lambda>i j. val radii i R j) in
      if \<not> R < nW radii then (Some radiix_heatmap, Some radiiy_heatmap, None)
      else let radiiz_heatmap = heatmap (sigma fld) (nD radii) (nH radii) (\<lambda>i j. val radii i j R) in
      (Some radiix_heatmap, Some radiiy_heatmap, Some radiiz_heatmap))"

text \<open>
  \<^verbatim>\<open>
  try:
      with torch.enable_grad():
          radii, eikonal_loss = self.field.get_certified_radius()
          if radii is not None:
              ... radiix_heatmap, radiiy_heatmap, radiiz_heatmap ...
  except:
      print("no certified radii being calculated")
  ...
  metrics_dict = {"psnr": float(psnr.item()), "ssim": float(ssim), "lpips": float(lpips)}
  images_dict = {"img": combined_rgb, "accumulation": combined_acc, "depth": combined_depth,
                 "alive_ray_mask": combined_alive_ray_mask,
                 "radiix_heatmap" : radiix_heatmap, "radiiy_heatmap" : radiiy_heatmap,
                 "radiiz_heatmap" : radiiz_heatmap}
  return metrics_dict, images_dict
  \<close>
  The three heat-map variables are assigned nowhere else: when the \<^verbatim>\<open>try\<close> block is
  left through the handler before an assignment, the variable is unbound where
  \<^verbatim>\<open>images_dict\<close> is built. The two dictionaries are association lists.
\<close>

definition get_image_metrics_and_images ::
  "'img externals \<Rightarrow> (real \<Rightarrow> fl) \<Rightarrow> autograd_grad \<Rightarrow> TCNNGaussianNeRFField
     \<Rightarrow> (string \<Rightarrow> 'img) \<Rightarrow> (string \<Rightarrow> 'img)
     \<Rightarrow> py_error + ((string \<times> real) list \<times> (string \<times> 'img picture) list)" where
  "get_image_metrics_and_images ext Phi_inv autograd fld outputs batch =
     (let image = batch ''image'';
          rgb = outputs ''rgb'';
          acc = apply_colormap ext (outputs ''accumulation'');
          depth = apply_depth_colormap ext (outputs ''depth'') (outputs ''accumulation'');
          alive_ray_mask = apply_colormap ext (outputs ''alive_ray_mask'');
          heatmaps = (case get_certified_radius Phi_inv autograd fld of
                        Inl e \<Rightarrow> (None, None, None)
                      | Inr (radii, eikonal_loss) \<Rightarrow> radii_heatmaps fld radii);
          combined_rgb = cat ext [image, rgb];
          combined_acc = cat ext [acc];
          combined_depth = cat ext [depth];
          combined_alive_ray_mask = cat ext [alive_ray_mask];
          image' = moveaxis ext image;
          rgb' = moveaxis ext rgb;
          metrics_dict = [(''psnr'', psnr ext image' rgb'), (''ssim'', ssim ext image' rgb'),
                          (''lpips'', lpips ext image' rgb')]
      in case heatmaps of
           (Some radiix_heatmap, Some radiiy_heatmap, Some radiiz_heatmap) \<Rightarrow>
             Inr (metrics_dict,
                  [(''img'', Image combined_rgb), (''accumulation'', Image combined_acc),
                   (''depth'', Image combined_depth), (''alive_ray_mask'', Image combined_alive_ray_mask),
                   (''radiix_heatmap'', Heatmap radiix_heatmap),
                   (''radiiy_heatmap'', Heatmap radiiy_heatmap),
                   (''radiiz_heatmap'', Heatmap radiiz_heatmap)])
         | _ \<Rightarrow> Inl UnboundLocalError)"

subsection \<open>The fields and the lattice of the specification\<close>









subsection \<open>A smallest field\<close>

text \<open>
  The field with a grid of one voxel holding \<open>c\<close>, the ReLU transition and the kernel
  \<open>[1]\<close>. The constructor builds it for \<open>sigma = 1/5\<close> and for \<open>sigma = 1/4\<close>
  (\<^verbatim>\<open>int(sigma * 5)\<close> is 1 for both), from \<^verbatim>\<open>f_init = "ones"\<close> (\<open>c = 1\<close>),
  \<^verbatim>\<open>"zeros"\<close> (\<open>c = 0\<close>) or \<^verbatim>\<open>"rand"\<close> with the draw 0 (\<open>c = 1/2\<close>); see
  \<open>init_unit_field_fifth\<close> and the lemmas after it.
\<close>

definition unit_field :: "real \<Rightarrow> real \<Rightarrow> string \<Rightarrow> TCNNGaussianNeRFField" where
  "unit_field c sg g_tf =
     \<lparr>f = \<lparr>nD = 1, nH = 1, nW = 1, val = (\<lambda>i j l. c)\<rparr>,
      f_transition_function = ''relu'',
      occupancy_to_density_transformation_function = ''exponential'',
      sigma = sg,
      gaussian_kernel = [1],
      g_transition_function = g_tf,
      g_transition_alpha = 4,
      g_transition_alpha_increments = 0,
      density_multiplier = 1,
      use_appearance_embedding = False\<rparr>"



section \<open>Properties\<close>

subsection \<open>Grid initialisation\<close>

text \<open>
  Claim C8. Mode \<^verbatim>\<open>"ones"\<close> gives an \<open>R \<times> R \<times> R\<close> grid of ones, mode \<^verbatim>\<open>"zeros"\<close> a grid
  of zeros, and every other mode string (\<^verbatim>\<open>"rand"\<close> or a malformed one, with no error)
  a grid whose entries lie in \<open>[1/2, 1]\<close>, given that \<^verbatim>\<open>torch.rand\<close> draws from
  \<open>[0, 1)\<close>.
\<close>

theorem init_f_modes:
  assumes "\<forall>i j l. 0 \<le> rand i j l \<and> rand i j l < 1"
  shows "nD (init_f mode R rand) = R \<and> nH (init_f mode R rand) = R \<and> nW (init_f mode R rand) = R
       \<and> (mode = ''ones'' \<longrightarrow> val (init_f mode R rand) i j l = 1)
       \<and> (mode = ''zeros'' \<longrightarrow> val (init_f mode R rand) i j l = 0)
       \<and> (mode \<noteq> ''ones'' \<and> mode \<noteq> ''zeros'' \<longrightarrow>
            1 / 2 \<le> val (init_f mode R rand) i j l \<and> val (init_f mode R rand) i j l \<le> 1)"
proof -
  have r: "0 \<le> rand i j l" "rand i j l < 1"
    using assms by auto
  show ?thesis
    using r by (simp add: init_f_def)
qed

theorem init_f_modes_witness:
  "val (init_f ''ones'' 2 (\<lambda>i j l. 1 / 4)) 0 1 1 = 1
   \<and> val (init_f ''zeros'' 2 (\<lambda>i j l. 1 / 4)) 0 1 1 = 0
   \<and> 1 / 2 \<le> val (init_f ''rand'' 2 (\<lambda>i j l. 1 / 4)) 0 1 1
   \<and> val (init_f ''rand'' 2 (\<lambda>i j l. 1 / 4)) 0 1 1 \<le> 1
   \<and> 1 / 2 \<le> val (init_f ''Ones'' 2 (\<lambda>i j l. 1 / 4)) 0 1 1
   \<and> val (init_f ''Ones'' 2 (\<lambda>i j l. 1 / 4)) 0 1 1 \<le> 1"
proof -
  have h: "\<forall>i j l. (0::real) \<le> (\<lambda>i j l. 1 / 4) i j l \<and> (\<lambda>i j l. 1 / 4) i j l < (1::real)"
    by simp
  have a: "val (init_f ''ones'' 2 (\<lambda>i j l. 1 / 4)) 0 1 1 = 1"
    using init_f_modes [OF h, of "''ones''" 2 0 1 1] by simp
  have b: "val (init_f ''zeros'' 2 (\<lambda>i j l. 1 / 4)) 0 1 1 = 0"
    using init_f_modes [OF h, of "''zeros''" 2 0 1 1] by simp
  have c: "1 / 2 \<le> val (init_f ''rand'' 2 (\<lambda>i j l. 1 / 4)) 0 1 1
           \<and> val (init_f ''rand'' 2 (\<lambda>i j l. 1 / 4)) 0 1 1 \<le> 1"
    using init_f_modes [OF h, of "''rand''" 2 0 1 1] by simp
  have d: "1 / 2 \<le> val (init_f ''Ones'' 2 (\<lambda>i j l. 1 / 4)) 0 1 1
           \<and> val (init_f ''Ones'' 2 (\<lambda>i j l. 1 / 4)) 0 1 1 \<le> 1"
    using init_f_modes [OF h, of "''Ones''" 2 0 1 1] by simp
  show ?thesis
    using a b c d by simp
qed

subsection \<open>Sharpness annealing\<close>

lemma run_callbacks_before:
  "g_transition_alpha (field (run_callbacks step BEFORE_TRAIN_ITERATION (get_training_callbacks ens) m))
     = g_transition_alpha (field m) + g_transition_alpha_increments (field m)"
  "g_transition_alpha_increments
     (field (run_callbacks step BEFORE_TRAIN_ITERATION (get_training_callbacks ens) m))
     = g_transition_alpha_increments (field m)"
  by (simp_all add: run_callbacks_def get_training_callbacks_def run_callback_at_location_def
      update_occupancy_grid_def update_alpha_value_def)

lemma run_callbacks_after:
  "run_callbacks step AFTER_TRAIN_ITERATION (get_training_callbacks ens) m = m"
  by (simp add: run_callbacks_def get_training_callbacks_def run_callback_at_location_def)

lemma train_iteration_alpha:
  "g_transition_alpha (field (train_iteration ens opt step m))
     = g_transition_alpha (field m) + g_transition_alpha_increments (field m)"
  "g_transition_alpha_increments (field (train_iteration ens opt step m))
     = g_transition_alpha_increments (field m)"
  by (simp_all add: train_iteration_def Let_def run_callbacks_before run_callbacks_after)

lemma train_alpha:
  "g_transition_alpha (field (train ens opt N step m))
     = g_transition_alpha (field m) + real N * g_transition_alpha_increments (field m)
   \<and> g_transition_alpha_increments (field (train ens opt N step m))
     = g_transition_alpha_increments (field m)"
proof (induction N arbitrary: step m)
  case 0
  show ?case by simp
next
  case (Suc N)
  show ?case by (simp add: Suc.IH train_iteration_alpha algebra_simps)
qed

text \<open>
  Claim C9. One training iteration adds the increment to the sharpness parameter exactly
  once; after \<open>N\<close> iterations the parameter is \<open>alpha\<^sub>0 + N \<cdot> \<Delta>\<close>; and with a
  non-negative increment it never decreases as training goes on.
\<close>

theorem alpha_after_training:
  "g_transition_alpha (field (train_iteration ens opt step m))
     = g_transition_alpha (field m) + g_transition_alpha_increments (field m)
   \<and> g_transition_alpha (field (train ens opt N step m))
     = g_transition_alpha (field m) + real N * g_transition_alpha_increments (field m)
   \<and> (0 \<le> g_transition_alpha_increments (field m) \<longrightarrow> N \<le> M \<longrightarrow>
        g_transition_alpha (field (train ens opt N step m))
          \<le> g_transition_alpha (field (train ens opt M step m)))"
proof -
  have mono: "g_transition_alpha (field (train ens opt N step m))
                \<le> g_transition_alpha (field (train ens opt M step m))"
    if "0 \<le> g_transition_alpha_increments (field m)" "N \<le> M"
  proof -
    have "real N * g_transition_alpha_increments (field m)
            \<le> real M * g_transition_alpha_increments (field m)"
      using that by (simp add: mult_right_mono)
    then show ?thesis
      by (simp add: train_alpha)
  qed
  show ?thesis
    using mono by (simp add: train_alpha train_iteration_alpha)
qed

theorem alpha_after_training_witness:
  "g_transition_alpha (field (train (\<lambda>step fld og. og) (\<lambda>step m. f (field m)) 3 0
      \<lparr>field = \<lparr>f = init_f ''ones'' 2 (\<lambda>i j l. 0), f_transition_function = ''sigmoid'',
                 occupancy_to_density_transformation_function = ''exponential'', sigma = 1,
                 gaussian_kernel = [1], g_transition_function = ''sigmoid'',
                 g_transition_alpha = 4, g_transition_alpha_increments = 1 / 2,
                 density_multiplier = 1, use_appearance_embedding = False\<rparr>,
        occupancy_grid = ()\<rparr>)) = 4 + 3 * (1 / 2)
   \<and> g_transition_alpha (field (train (\<lambda>step fld og. og) (\<lambda>step m. f (field m)) 3 0
      \<lparr>field = \<lparr>f = init_f ''ones'' 2 (\<lambda>i j l. 0), f_transition_function = ''sigmoid'',
                 occupancy_to_density_transformation_function = ''exponential'', sigma = 1,
                 gaussian_kernel = [1], g_transition_function = ''sigmoid'',
                 g_transition_alpha = 4, g_transition_alpha_increments = 1 / 2,
                 density_multiplier = 1, use_appearance_embedding = False\<rparr>,
        occupancy_grid = ()\<rparr>))
     \<le> g_transition_alpha (field (train (\<lambda>step fld og. og) (\<lambda>step m. f (field m)) 5 0
      \<lparr>field = \<lparr>f = init_f ''ones'' 2 (\<lambda>i j l. 0), f_transition_function = ''sigmoid'',
                 occupancy_to_density_transformation_function = ''exponential'', sigma = 1,
                 gaussian_kernel = [1], g_transition_function = ''sigmoid'',
                 g_transition_alpha = 4, g_transition_alpha_increments = 1 / 2,
                 density_multiplier = 1, use_appearance_embedding = False\<rparr>,
        occupancy_grid = ()\<rparr>))"
  using alpha_after_training [of "\<lambda>step fld og. og" "\<lambda>step m. f (field m)" 0
      "\<lparr>field = \<lparr>f = init_f ''ones'' 2 (\<lambda>i j l. 0), f_transition_function = ''sigmoid'',
                 occupancy_to_density_transformation_function = ''exponential'', sigma = 1,
                 gaussian_kernel = [1], g_transition_function = ''sigmoid'',
                 g_transition_alpha = 4, g_transition_alpha_increments = 1 / 2,
                 density_multiplier = 1, use_appearance_embedding = False\<rparr>,
        occupancy_grid = ()\<rparr>" 3 5]
  by simp

subsection \<open>The Gaussian kernel\<close>

text \<open>
  For a positive sigma the kernel is returned, its length is the odd number
  \<^verbatim>\<open>int(sigma * 5)\<close>, plus one if that is even, and its entries sum to one (in real
  arithmetic).
\<close>

lemma kernel_size_odd_positive:
  assumes "0 < sg"
  shows "odd (kernel_size sg) \<and> 1 \<le> kernel_size sg"
proof -
  define n where "n = \<lfloor>sg * 5\<rfloor>"
  have n: "0 \<le> n"
    using assms by (simp add: n_def)
  have k: "kernel_size sg = (if n mod 2 = 0 then n + 1 else n)"
    using assms by (simp add: kernel_size_def py_int_def Let_def n_def)
  show ?thesis
    unfolding k using n by presburger
qed

lemma linspace_length:
  assumes "0 \<le> n"
  shows "\<exists>ts. linspace a b n = Inr ts \<and> int (length ts) = n"
  using assms by (simp add: linspace_def)

lemma sum_list_normalised:
  fixes gauss :: "real list"
  assumes "sum_list gauss \<noteq> 0"
  shows "sum_list (map (\<lambda>g. g / sum_list gauss) gauss) = 1"
proof -
  have "sum_list (map (\<lambda>g. g * (1 / sum_list gauss)) gauss) = sum_list gauss * (1 / sum_list gauss)"
    using sum_list_mult_const [of "\<lambda>g. g" "1 / sum_list gauss" gauss] by simp
  then show ?thesis
    using assms by simp
qed

lemma sum_list_exp_nonneg:
  fixes ts :: "real list" and h :: "real \<Rightarrow> real"
  shows "0 \<le> sum_list (map (\<lambda>t. exp (h t)) ts)"
  by (induction ts) (simp_all add: add_nonneg_nonneg)

lemma sum_list_exp_positive:
  fixes ts :: "real list" and h :: "real \<Rightarrow> real"
  assumes "ts \<noteq> []"
  shows "0 < sum_list (map (\<lambda>t. exp (h t)) ts)"
proof (cases ts)
  case Nil
  then show ?thesis using assms by simp
next
  case (Cons t ts')
  then show ?thesis
    using sum_list_exp_nonneg [of h ts'] by (simp add: add_pos_nonneg)
qed

lemma make_gaussian_kernel_normalised:
  assumes "0 < sg"
  shows "\<exists>k. make_gaussian_kernel sg = Inr k \<and> int (length k) = kernel_size sg
           \<and> odd (length k) \<and> sum_list k = 1"
proof -
  have ks: "odd (kernel_size sg)" "1 \<le> kernel_size sg"
    using kernel_size_odd_positive [OF assms] by simp_all
  obtain ts where ts: "linspace (real_of_int ((- kernel_size sg) div 2))
      (real_of_int (kernel_size sg div 2 + 1)) (kernel_size sg) = Inr ts"
    "int (length ts) = kernel_size sg"
    using linspace_length [of "kernel_size sg"] ks(2) by fastforce
  have ne: "ts \<noteq> []"
    using ts(2) ks(2) by auto
  let ?gauss = "map (\<lambda>t. exp (- ((t / sg) ^ 2) / 2)) ts"
  have pos: "sum_list ?gauss \<noteq> 0"
    using sum_list_exp_positive [OF ne, of "\<lambda>t. - ((t / sg) ^ 2) / 2"] by simp
  have k: "make_gaussian_kernel sg = Inr (map (\<lambda>g. g / sum_list ?gauss) ?gauss)"
    by (simp only: make_gaussian_kernel_def Let_def ts(1) sum.case)
  have "odd (length ts)"
    using ts(2) ks(1) by (metis even_of_nat)
  then show ?thesis
    unfolding k using ts(2) sum_list_normalised [OF pos] by simp
qed

lemma kernel_size_1: "kernel_size 1 = 5"
  by (simp add: kernel_size_def py_int_def)

lemma upt_5: "[0..<5] = [0, 1, 2, 3, 4]"
  by (simp add: upt_rec)

text \<open>
  Claim C6, evaluated at the default \<open>sigma = 1\<close>: the kernel has five entries, and they
  are the normalised Gaussian weights of the points \<open>-3, -3/2, 0, 3/2, 3\<close>. The end
  points passed to \<^verbatim>\<open>linspace\<close> are \<^verbatim>\<open>-ks // 2 = -3\<close> and \<^verbatim>\<open>ks // 2 + 1 = 3\<close>, so the
  five points are \<open>3/2\<close> apart and two of them are not integers.
\<close>

theorem make_gaussian_kernel_sigma_1:
  "make_gaussian_kernel 1 =
     Inr (let ts = [- 3, - 3 / 2, 0, 3 / 2, 3];
              gauss = map (\<lambda>t. exp (- (t ^ 2) / 2)) ts
          in map (\<lambda>g. g / sum_list gauss) gauss)"
  by (simp add: make_gaussian_kernel_def kernel_size_1 linspace_def upt_5 Let_def)

subsection \<open>Image metrics when the certified radius fails\<close>

text \<open>
  Claim C3, evaluated where \<^verbatim>\<open>get_certified_radius\<close> raises: either
  \<^verbatim>\<open>torch.autograd.grad\<close> raises (for any field), or the field has an unrecognised
  \<^verbatim>\<open>f_transition_function\<close>. The handler swallows the error, but the three heat-map
  variables are then unbound and building \<^verbatim>\<open>images_dict\<close> raises
  \<^verbatim>\<open>UnboundLocalError\<close>: the function returns neither metrics nor images.
\<close>

theorem metrics_abort_when_radius_fails:
  "get_image_metrics_and_images ext Phi_inv (\<lambda>F ps. Inl RuntimeError) fld outputs batch
     = Inl UnboundLocalError
   \<and> get_image_metrics_and_images ext Phi_inv autograd (fld\<lparr>f_transition_function := ''tanh''\<rparr>)
       outputs batch = Inl UnboundLocalError"
  by (simp add: get_image_metrics_and_images_def get_certified_radius_def smoothed_grid_def
      lattice_def Let_def split: sum.splits)

subsection \<open>The smallest field: what the constructor and the queries compute\<close>

lemma kernel_size_fifth: "kernel_size (1 / 5) = 1"
  by (simp add: kernel_size_def py_int_def)

lemma kernel_size_quarter: "kernel_size (1 / 4) = 1"
proof -
  have "\<lfloor>(5::real) / 4\<rfloor> = 1"
    by (simp add: floor_eq_iff)
  then show ?thesis
    by (simp add: kernel_size_def py_int_def)
qed

lemma make_gaussian_kernel_fifth: "make_gaussian_kernel (1 / 5) = Inr [1]"
  by (simp add: make_gaussian_kernel_def kernel_size_fifth linspace_def Let_def)

lemma make_gaussian_kernel_quarter: "make_gaussian_kernel (1 / 4) = Inr [1]"
  by (simp add: make_gaussian_kernel_def kernel_size_quarter linspace_def Let_def)

lemma init_unit_field_fifth:
  "TCNNGaussianNeRFField_init (1 / 5) ''rand'' ''relu'' 1 g_tf 4 0 ''exponential'' 1 False None (\<lambda>i j l. 0)
     = Inr (unit_field (1 / 2) (1 / 5) g_tf)"
  by (simp add: TCNNGaussianNeRFField_init_def make_gaussian_kernel_fifth init_f_def unit_field_def)

lemma init_unit_field_quarter:
  "TCNNGaussianNeRFField_init (1 / 4) ''rand'' ''relu'' 1 g_tf 4 0 ''exponential'' 1 False None (\<lambda>i j l. 0)
     = Inr (unit_field (1 / 2) (1 / 4) g_tf)"
  by (simp add: TCNNGaussianNeRFField_init_def make_gaussian_kernel_quarter init_f_def unit_field_def)

lemma init_unit_field_ones:
  "TCNNGaussianNeRFField_init (1 / 5) ''ones'' ''relu'' 1 g_tf 4 0 ''exponential'' 1 False None rand
     = Inr (unit_field 1 (1 / 5) g_tf)"
  by (simp add: TCNNGaussianNeRFField_init_def make_gaussian_kernel_fifth init_f_def unit_field_def)

lemma init_unit_field_zeros:
  "TCNNGaussianNeRFField_init (1 / 5) ''zeros'' ''relu'' 1 g_tf 4 0 ''exponential'' 1 False None rand
     = Inr (unit_field 0 (1 / 5) g_tf)"
  by (simp add: TCNNGaussianNeRFField_init_def make_gaussian_kernel_fifth init_f_def unit_field_def)

lemma smoothed_unit_field:
  "\<exists>sm. smoothed_grid (unit_field c sg g_tf) = Inr sm \<and> nD sm = 1 \<and> nH sm = 1 \<and> nW sm = 1
        \<and> val sm 0 0 0 = relu c"
  by (simp add: smoothed_grid_def unit_field_def apply_3d_gaussian_blur_def numeral_3_eq_3
      conv3d_def permute_def map_vol_def padded_def Let_def)

lemma grid_sample_unit:
  assumes "nD v = 1" "nH v = 1" "nW v = 1"
  shows "grid_sample v pt = val v 0 0 0"
proof -
  obtain x y z where pt: "pt = (x, y, z)" by (cases pt) auto
  show ?thesis
    by (simp add: pt grid_sample_def unnormalize_def assms voxel_def corner_weight_def Let_def)
qed

lemma lattice_unit_field:
  "lattice (unit_field c sg g_tf)
     = Inr [(- 1, - 1, - 1), (- 1, - 1, 1), (- 1, 1, - 1), (- 1, 1, 1),
            (1, - 1, - 1), (1, - 1, 1), (1, 1, - 1), (1, 1, 1)]"
  by (simp add: lattice_def unit_field_def linspace_def cartesian_product_def upt_rec)

lemma get_density_unit_field:
  "get_density te mlp (unit_field c sg ''identity'') [pt] = Inr ([te (relu c)], [snd (mlp pt)])"
proof -
  obtain sm where sm: "smoothed_grid (unit_field c sg ''identity'') = Inr sm"
    "nD sm = 1" "nH sm = 1" "nW sm = 1" "val sm 0 0 0 = relu c"
    using smoothed_unit_field by blast
  have g: "arg_maxed_smoothed_grid (unit_field c sg ''identity'') sm = sm"
    by (simp add: arg_maxed_smoothed_grid_def unit_field_def)
  have dm: "density_multiplier (unit_field c sg ''identity'') = 1"
    by (simp add: unit_field_def)
  show ?thesis
    by (simp add: get_density_def sm g dm grid_sample_unit split: prod.splits)
qed

lemma get_density_spec_unit_field:
  "get_density_spec Phi_inv te (unit_field c sg ''identity'') [pt] = Inr [te (sg * Phi_inv (relu c))]"
proof -
  obtain sm where sm: "smoothed_grid (unit_field c sg ''identity'') = Inr sm"
    "nD sm = 1" "nH sm = 1" "nW sm = 1" "val sm 0 0 0 = relu c"
    using smoothed_unit_field by blast
  have g: "arg_maxed_smoothed_grid (unit_field c sg ''identity'') sm = sm"
    by (simp add: arg_maxed_smoothed_grid_def unit_field_def)
  have dm: "density_multiplier (unit_field c sg ''identity'') = 1" "sigma (unit_field c sg ''identity'') = sg"
    by (simp_all add: unit_field_def)
  show ?thesis
    by (simp add: get_density_spec_def sm g dm grid_sample_unit split: prod.splits)
qed

subsection \<open>When the blur returns\<close>

lemma conv3d_returns:
  assumes "k \<noteq> []" "0 < nD v" "0 < nH v" "0 < nW v"
  shows "\<exists>out. conv3d v k = Inr out \<and> 0 < nD out \<and> nH out = nH v \<and> nW out = nW v"
proof -
  have "length k \<le> nD v + 2 * (length k div 2)"
    using assms(2) by arith
  then show ?thesis
    using assms by (simp add: conv3d_def Let_def)
qed

lemma blur_returns:
  assumes "k \<noteq> []" "0 < nD v" "0 < nH v" "0 < nW v"
  shows "\<exists>out. apply_3d_gaussian_blur k v = Inr out"
proof -
  obtain v1 where v1: "conv3d (permute v) k = Inr v1" "0 < nD v1" "nH v1 = nD v" "nW v1 = nH v"
    using conv3d_returns [of k "permute v"] assms by (auto simp: permute_def)
  obtain v2 where v2: "conv3d (permute v1) k = Inr v2" "0 < nD v2" "nH v2 = nD v1" "nW v2 = nD v"
    using conv3d_returns [of k "permute v1"] assms v1 by (auto simp: permute_def)
  obtain v3 where v3: "conv3d (permute v2) k = Inr v3"
    using conv3d_returns [of k "permute v2"] assms v1 v2 by (auto simp: permute_def)
  show ?thesis
    by (simp add: apply_3d_gaussian_blur_def numeral_3_eq_3 v1 v2 v3)
qed

lemma smoothed_grid_returns:
  assumes "f_transition_function fld = ''relu'' \<or> f_transition_function fld = ''sigmoid''"
    and "gaussian_kernel fld \<noteq> []" and "0 < nD (f fld)" and "0 < nH (f fld)" and "0 < nW (f fld)"
  shows "\<exists>sm. smoothed_grid fld = Inr sm"
proof -
  have "\<exists>sm. apply_3d_gaussian_blur (gaussian_kernel fld) (map_vol g (f fld)) = Inr sm" for g
    using blur_returns [of "gaussian_kernel fld" "map_vol g (f fld)"] assms
    by (simp add: map_vol_def)
  then show ?thesis
    using assms(1) by (auto simp: smoothed_grid_def)
qed

lemma smoothed_grid_sigma:
  "smoothed_grid (fld\<lparr>sigma := s\<rparr>) = smoothed_grid fld"
  by (simp add: smoothed_grid_def)

lemma smoothed_grid_g:
  "smoothed_grid (fld\<lparr>g_transition_function := g_tf\<rparr>) = smoothed_grid fld"
  "smoothed_grid (fld\<lparr>g_transition_alpha := a\<rparr>) = smoothed_grid fld"
  by (simp_all add: smoothed_grid_def)

subsection \<open>The separable blur is the three-dimensional convolution\<close>

text \<open>
  With a kernel of odd length and a non-empty volume no convolution of the loop fails and
  each keeps the size of the axis it runs along. The three nested sums are then the
  triple sum of the direct convolution, term by term.
\<close>

lemma conv3d_odd:
  assumes "odd (length k)" "0 < nD v" "0 < nH v" "0 < nW v"
  shows "conv3d v k = Inr \<lparr>nD = nD v, nH = nH v, nW = nW v,
           val = (\<lambda>d h w. \<Sum>j = 0..<length k. padded v (length k div 2) (d + j) h w * k ! j)\<rparr>"
proof -
  obtain p where p: "length k = 2 * p + 1"
    using assms(1) by (auto elim: oddE)
  have h: "length k div 2 = p"
    by (simp add: p)
  have n: "k \<noteq> []"
    using p by auto
  show ?thesis
    using assms(2,3,4) n by (simp add: conv3d_def Let_def h interv_sum_list_conv_sum_set_nat) (simp add: p)
qed

lemma blur_odd:
  assumes "odd (length k)" "0 < nD v" "0 < nH v" "0 < nW v"
  shows "apply_3d_gaussian_blur k v = Inr \<lparr>nD = nD v, nH = nH v, nW = nW v,
           val = (\<lambda>d h w. \<Sum>a = 0..<length k.
                    padded
                      (permute \<lparr>nD = nH v, nH = nW v, nW = nD v,
                         val = (\<lambda>d' h' w'. \<Sum>b = 0..<length k.
                            padded
                              (permute \<lparr>nD = nW v, nH = nD v, nW = nH v,
                                 val = (\<lambda>d'' h'' w''. \<Sum>c = 0..<length k.
                                     padded (permute v) (length k div 2) (d'' + c) h'' w'' * k ! c)\<rparr>)
                              (length k div 2) (d' + b) h' w' * k ! b)\<rparr>)
                      (length k div 2) (d + a) h w * k ! a)\<rparr>"
proof -
  let ?v1 = "\<lparr>nD = nW v, nH = nD v, nW = nH v,
                val = (\<lambda>d'' h'' w''. \<Sum>c = 0..<length k.
                         padded (permute v) (length k div 2) (d'' + c) h'' w'' * k ! c)\<rparr>"
  let ?v2 = "\<lparr>nD = nH v, nH = nW v, nW = nD v,
                val = (\<lambda>d' h' w'. \<Sum>b = 0..<length k.
                         padded (permute ?v1) (length k div 2) (d' + b) h' w' * k ! b)\<rparr>"
  have c1: "conv3d (permute v) k = Inr ?v1"
    using conv3d_odd [of k "permute v"] assms by (simp add: permute_def)
  have c2: "conv3d (permute ?v1) k = Inr ?v2"
    using conv3d_odd [of k "permute ?v1"] assms by (simp add: permute_def)
  have c3: "conv3d (permute ?v2) k = Inr \<lparr>nD = nD v, nH = nH v, nW = nW v,
           val = (\<lambda>d h w. \<Sum>a = 0..<length k.
                    padded (permute ?v2) (length k div 2) (d + a) h w * k ! a)\<rparr>"
    using conv3d_odd [of k "permute ?v2"] assms by (simp add: permute_def)
  show ?thesis
    by (simp add: apply_3d_gaussian_blur_def numeral_3_eq_3 c1 c2 c3)
qed

lemma sep_summand:
  fixes x :: "nat \<Rightarrow> nat \<Rightarrow> real"
  shows "(if A then (\<Sum>b\<in>S. (if B b then (\<Sum>c\<in>T. (if C c then x b c else 0) * kc c) else 0) * kb b) else 0) * ka
       = (\<Sum>b\<in>S. \<Sum>c\<in>T. (if A \<and> B b \<and> C c then x b c else 0) * (ka * kb b * kc c))"
proof (cases A)
  case False
  then show ?thesis by simp
next
  case True
  have "(if B b then (\<Sum>c\<in>T. (if C c then x b c else 0) * kc c) else 0) * kb b * ka
          = (\<Sum>c\<in>T. (if B b \<and> C c then x b c else 0) * (ka * kb b * kc c))" for b
  proof (cases "B b")
    case False
    then show ?thesis by simp
  next
    case True
    have "(\<Sum>c\<in>T. (if C c then x b c else 0) * kc c) * kb b * ka
            = (\<Sum>c\<in>T. (if C c then x b c else 0) * kc c * kb b * ka)"
      by (simp add: sum_distrib_right)
    also have "\<dots> = (\<Sum>c\<in>T. (if C c then x b c else 0) * (ka * kb b * kc c))"
      by (rule sum.cong) (simp_all add: mult_ac)
    finally show ?thesis
      using True by simp
  qed
  then show ?thesis
    using True by (simp add: sum_distrib_right)
qed

lemma separable_is_direct:
  "(\<Sum>a = 0..<length k.
      padded
        (permute \<lparr>nD = nH v, nH = nW v, nW = nD v,
           val = (\<lambda>d' h' w'. \<Sum>b = 0..<length k.
              padded
                (permute \<lparr>nD = nW v, nH = nD v, nW = nH v,
                   val = (\<lambda>d'' h'' w''. \<Sum>c = 0..<length k.
                       padded (permute v) (length k div 2) (d'' + c) h'' w'' * k ! c)\<rparr>)
                (length k div 2) (d' + b) h' w' * k ! b)\<rparr>)
        (length k div 2) (d + a) h w * k ! a)
   = direct_conv3d_spec k v d h w"
  unfolding direct_conv3d_spec_def Let_def interv_sum_list_conv_sum_set_nat padded_def padded3_def
  by (simp add: permute_def sep_summand conj_assoc cong: if_cong)

lemma upt_3: "[0..<3] = [0, 1, 2]"
  by (simp add: upt_rec)

text \<open>
  Claim C7. For a kernel of odd length and a non-empty volume, \<^verbatim>\<open>apply_3d_gaussian_blur\<close>
  returns a volume of the size of its input along each axis, and that volume is the direct
  three-dimensional convolution of the zero-padded input with the outer product of the
  kernel with itself three times (in real arithmetic: the equality is exact).
\<close>

theorem separable_blur_is_direct_convolution:
  assumes "odd (length k)" and "0 < nD v" and "0 < nH v" and "0 < nW v"
  shows "\<exists>out. apply_3d_gaussian_blur k v = Inr out
           \<and> nD out = nD v \<and> nH out = nH v \<and> nW out = nW v
           \<and> val out = direct_conv3d_spec k v"
proof -
  have "(\<lambda>d h w. \<Sum>a = 0..<length k.
      padded
        (permute \<lparr>nD = nH v, nH = nW v, nW = nD v,
           val = (\<lambda>d' h' w'. \<Sum>b = 0..<length k.
              padded
                (permute \<lparr>nD = nW v, nH = nD v, nW = nH v,
                   val = (\<lambda>d'' h'' w''. \<Sum>c = 0..<length k.
                       padded (permute v) (length k div 2) (d'' + c) h'' w'' * k ! c)\<rparr>)
                (length k div 2) (d' + b) h' w' * k ! b)\<rparr>)
        (length k div 2) (d + a) h w * k ! a)
     = direct_conv3d_spec k v"
    by (intro ext) (rule separable_is_direct)
  then show ?thesis
    by (simp add: blur_odd [OF assms])
qed

theorem separable_blur_is_direct_convolution_witness:
  "\<exists>out. apply_3d_gaussian_blur [1 / 4, 1 / 2, 1 / 4]
            \<lparr>nD = 1, nH = 1, nW = 2, val = (\<lambda>d h w. if w = 0 then 1 else 3)\<rparr> = Inr out
      \<and> nD out = 1 \<and> nH out = 1 \<and> nW out = 2
      \<and> val out 0 0 0
          = direct_conv3d_spec [1 / 4, 1 / 2, 1 / 4]
              \<lparr>nD = 1, nH = 1, nW = 2, val = (\<lambda>d h w. if w = 0 then 1 else 3)\<rparr> 0 0 0
      \<and> val out 0 0 0 = 5 / 16"
proof -
  have d: "direct_conv3d_spec [1 / 4, 1 / 2, 1 / 4]
              \<lparr>nD = 1, nH = 1, nW = 2, val = (\<lambda>d h w. if w = 0 then 1 else 3)\<rparr> 0 0 0 = 5 / 16"
    by (simp add: direct_conv3d_spec_def padded3_def upt_3)
  show ?thesis
    using separable_blur_is_direct_convolution [of "[1 / 4, 1 / 2, 1 / 4]"
        "\<lparr>nD = 1, nH = 1, nW = 2, val = (\<lambda>d h w. if w = 0 then 1 else 3)\<rparr>"] d
    by auto
qed

subsection \<open>The density query\<close>

text \<open>
  Claim C1, as the specification states it, fails: the density of the one-voxel field with
  grid value \<open>1/2\<close> at the centre of the cube is \<open>exp (1/2)\<close>, for \<open>sigma = 1/5\<close> and
  for \<open>sigma = 1/4\<close> alike, while the specification's density is
  \<open>exp (sigma \<cdot> \<Phi>\<^sup>-\<^sup>1 (1/2))\<close>. With the median \<open>\<Phi>\<^sup>-\<^sup>1 (1/2) = 0\<close> that is 1; and no value
  of \<open>\<Phi>\<^sup>-\<^sup>1 (1/2)\<close> at all makes the two agree for both values of sigma.
\<close>

theorem get_density_without_icdf_counterexample:
  "TCNNGaussianNeRFField_init (1 / 5) ''rand'' ''relu'' 1 ''identity'' 4 0 ''exponential'' 1 False None
       (\<lambda>i j l. 0) = Inr (unit_field (1 / 2) (1 / 5) ''identity'')
   \<and> TCNNGaussianNeRFField_init (1 / 4) ''rand'' ''relu'' 1 ''identity'' 4 0 ''exponential'' 1 False None
       (\<lambda>i j l. 0) = Inr (unit_field (1 / 2) (1 / 4) ''identity'')
   \<and> get_density exp (\<lambda>pt. (0, ())) (unit_field (1 / 2) (1 / 5) ''identity'') [(1 / 2, 1 / 2, 1 / 2)]
       = Inr ([exp (1 / 2)], [()])
   \<and> get_density exp (\<lambda>pt. (0, ())) (unit_field (1 / 2) (1 / 4) ''identity'') [(1 / 2, 1 / 2, 1 / 2)]
       = Inr ([exp (1 / 2)], [()])
   \<and> (\<forall>Phi_inv. get_density_spec Phi_inv exp (unit_field (1 / 2) (1 / 5) ''identity'') [(1 / 2, 1 / 2, 1 / 2)]
       = Inr [exp (1 / 5 * Phi_inv (1 / 2))])
   \<and> (\<forall>Phi_inv. get_density_spec Phi_inv exp (unit_field (1 / 2) (1 / 4) ''identity'') [(1 / 2, 1 / 2, 1 / 2)]
       = Inr [exp (1 / 4 * Phi_inv (1 / 2))])
   \<and> exp (1 / 2) \<noteq> exp (1 / 5 * (0::real))
   \<and> \<not> (\<exists>q::real. exp (1 / 2) = exp (1 / 5 * q) \<and> exp (1 / 2) = exp (1 / 4 * q))"
proof -
  have r: "relu (1 / 2) = 1 / 2"
    by (simp add: relu_def)
  show ?thesis
    by (simp add: init_unit_field_fifth init_unit_field_quarter get_density_unit_field
        get_density_spec_unit_field r)
qed

text \<open>
  Claim C1, amended. For a field with a recognised \<^verbatim>\<open>f_transition_function\<close>, a non-empty
  kernel and a non-empty grid the density query returns, and the density at a point is
  \<open>density_multiplier \<cdot> trunc_exp o\<close>, where \<open>o\<close> is the scalar sampled from the
  transitioned field at the rescaled point: the sample goes to the activation as it is.
  No \<open>sigma \<cdot> \<Phi>\<^sup>-\<^sup>1\<close> is applied, and the result does not depend on the attribute
  \<^verbatim>\<open>sigma\<close>.
\<close>

theorem get_density_direct:
  assumes "f_transition_function fld = ''relu'' \<or> f_transition_function fld = ''sigmoid''"
    and "gaussian_kernel fld \<noteq> []" and "0 < nD (f fld)" and "0 < nH (f fld)" and "0 < nW (f fld)"
  shows "\<exists>sm. smoothed_grid fld = Inr sm
     \<and> get_density te mlp fld pts
         = Inr (map (\<lambda>(x, y, z). density_multiplier fld *
                       te (grid_sample (arg_maxed_smoothed_grid fld sm) (x * 2 - 1, y * 2 - 1, z * 2 - 1))) pts,
                map (\<lambda>pt. snd (mlp pt)) pts)
     \<and> get_density te mlp (fld\<lparr>sigma := s\<rparr>) pts = get_density te mlp fld pts"
proof -
  obtain sm where sm: "smoothed_grid fld = Inr sm"
    using smoothed_grid_returns [OF assms] by blast
  have a: "get_density te mlp fld pts
         = Inr (map (\<lambda>(x, y, z). density_multiplier fld *
                       te (grid_sample (arg_maxed_smoothed_grid fld sm) (x * 2 - 1, y * 2 - 1, z * 2 - 1))) pts,
                map (\<lambda>pt. snd (mlp pt)) pts)"
    by (simp add: get_density_def sm Let_def split_def)
  have b: "get_density te mlp (fld\<lparr>sigma := s\<rparr>) pts = get_density te mlp fld pts"
    by (simp add: get_density_def smoothed_grid_sigma arg_maxed_smoothed_grid_def Let_def
        split: sum.splits)
  show ?thesis
    using sm a b by blast
qed

theorem get_density_direct_witness:
  "\<exists>sm. smoothed_grid (unit_field (1 / 2) (1 / 5) ''identity'') = Inr sm
     \<and> get_density exp (\<lambda>pt. (0, ())) (unit_field (1 / 2) (1 / 5) ''identity'') [(1 / 2, 1 / 2, 1 / 2)]
         = Inr ([1 * exp (grid_sample (arg_maxed_smoothed_grid (unit_field (1 / 2) (1 / 5) ''identity'') sm)
                       (0, 0, 0))], [()])
     \<and> get_density exp (\<lambda>pt. (0, ())) ((unit_field (1 / 2) (1 / 5) ''identity'')\<lparr>sigma := 7\<rparr>)
           [(1 / 2, 1 / 2, 1 / 2)]
         = get_density exp (\<lambda>pt. (0, ())) (unit_field (1 / 2) (1 / 5) ''identity'') [(1 / 2, 1 / 2, 1 / 2)]"
  using get_density_direct [of "unit_field (1 / 2) (1 / 5) ''identity''" exp "\<lambda>pt. (0, ())"
      "[(1 / 2, 1 / 2, 1 / 2)]" 7]
  by (simp add: unit_field_def)

subsection \<open>The constructor does not look at the transition names\<close>

lemma make_gaussian_kernel_1_returns: "\<exists>k. make_gaussian_kernel 1 = Inr k"
  by (simp add: make_gaussian_kernel_def kernel_size_1 linspace_def Let_def)

text \<open>
  Claim C4, as the specification states it, fails: with the constructor's other defaults,
  \<^verbatim>\<open>f_transition_function = "tanh"\<close> and \<^verbatim>\<open>g_transition_function = "softmax"\<close> are
  accepted and stored, and the first density query raises \<^verbatim>\<open>UnboundLocalError\<close>.
\<close>

theorem construction_accepts_unknown_names_counterexample:
  "\<exists>fld. TCNNGaussianNeRFField_init 1 ''ones'' ''tanh'' 256 ''softmax'' 4 0 ''exponential'' 1 False None
             (\<lambda>i j l. 0) = Inr fld
      \<and> f_transition_function fld = ''tanh'' \<and> g_transition_function fld = ''softmax''
      \<and> get_density exp (\<lambda>pt. (0, ())) fld [(1 / 2, 1 / 2, 1 / 2)] = Inl UnboundLocalError"
proof -
  obtain k where k: "make_gaussian_kernel 1 = Inr k"
    using make_gaussian_kernel_1_returns by blast
  show ?thesis
    by (simp add: TCNNGaussianNeRFField_init_def k get_density_def smoothed_grid_def)
qed

lemma arg_maxed_not_sigmoid:
  "g_tf \<noteq> ''sigmoid'' \<Longrightarrow> arg_maxed_smoothed_grid (fld\<lparr>g_transition_function := g_tf\<rparr>) sm = sm"
  by (simp add: arg_maxed_smoothed_grid_def)

text \<open>
  Claim C4, amended. The constructor does not validate the two names: with any two strings
  it fails or succeeds exactly as it does with \<^verbatim>\<open>"relu"\<close> and \<^verbatim>\<open>"sigmoid"\<close>, and on
  success it stores the strings unchanged. A \<^verbatim>\<open>g_transition_function\<close> other than
  \<^verbatim>\<open>"sigmoid"\<close> then behaves as the identity in the density query.
\<close>

theorem construction_ignores_transition_names:
  "TCNNGaussianNeRFField_init sg f_init f_tf R g_tf alpha inc o2d dm ue ni rand
     = map_sum id (\<lambda>fld. fld\<lparr>f_transition_function := f_tf, g_transition_function := g_tf\<rparr>)
         (TCNNGaussianNeRFField_init sg f_init ''relu'' R ''sigmoid'' alpha inc o2d dm ue ni rand)
   \<and> (g_tf \<noteq> ''sigmoid'' \<longrightarrow>
        get_density te mlp (fld\<lparr>g_transition_function := g_tf\<rparr>) pts
          = get_density te mlp (fld\<lparr>g_transition_function := ''identity''\<rparr>) pts)"
proof -
  have a: "TCNNGaussianNeRFField_init sg f_init f_tf R g_tf alpha inc o2d dm ue ni rand
     = map_sum id (\<lambda>fld. fld\<lparr>f_transition_function := f_tf, g_transition_function := g_tf\<rparr>)
         (TCNNGaussianNeRFField_init sg f_init ''relu'' R ''sigmoid'' alpha inc o2d dm ue ni rand)"
    by (simp add: TCNNGaussianNeRFField_init_def split: sum.splits)
  have b: "get_density te mlp (fld\<lparr>g_transition_function := g_tf\<rparr>) pts
          = get_density te mlp (fld\<lparr>g_transition_function := ''identity''\<rparr>) pts"
    if "g_tf \<noteq> ''sigmoid''"
    using that
    by (simp add: get_density_def smoothed_grid_g arg_maxed_not_sigmoid Let_def split: sum.splits)
  show ?thesis
    using a b by blast
qed

theorem construction_ignores_transition_names_witness:
  "TCNNGaussianNeRFField_init (1 / 5) ''rand'' ''tanh'' 1 ''softmax'' 4 0 ''exponential'' 1 False None
       (\<lambda>i j l. 0)
     = Inr ((unit_field (1 / 2) (1 / 5) ''sigmoid'')
              \<lparr>f_transition_function := ''tanh'', g_transition_function := ''softmax''\<rparr>)
   \<and> get_density exp (\<lambda>pt. (0, ())) ((unit_field (1 / 2) (1 / 5) ''sigmoid'')
          \<lparr>g_transition_function := ''softmax''\<rparr>) [(1 / 2, 1 / 2, 1 / 2)]
       = get_density exp (\<lambda>pt. (0, ())) ((unit_field (1 / 2) (1 / 5) ''sigmoid'')
          \<lparr>g_transition_function := ''identity''\<rparr>) [(1 / 2, 1 / 2, 1 / 2)]"
  using construction_ignores_transition_names [of "1 / 5" "''rand''" "''tanh''" 1 "''softmax''" 4 0
      "''exponential''" 1 False None "\<lambda>i j l. 0" exp "\<lambda>pt. (0, ())"
      "unit_field (1 / 2) (1 / 5) ''sigmoid''" "[(1 / 2, 1 / 2, 1 / 2)]"]
  by (simp add: init_unit_field_fifth)

subsection \<open>The certified radius is not clamped\<close>

lemma scaled_icdf_at_ends:
  "value = 0 \<or> value = 1 \<Longrightarrow> \<not> is_finite (fl_mul (Fin a) (icdf Phi_inv value))"
  "0 < a \<Longrightarrow> fl_mul (Fin a) (icdf Phi_inv 0) = NInf"
  "0 < a \<Longrightarrow> fl_mul (Fin a) (icdf Phi_inv 1) = PInf"
  "value < 0 \<or> 1 < value \<Longrightarrow> fl_mul (Fin a) (icdf Phi_inv value) = NaN"
  by (auto simp: icdf_def fl_sign_inf_def)

lemma certified_radius_zero_field:
  "\<exists>sm radii loss. smoothed_grid (unit_field 0 (1 / 5) ''sigmoid'') = Inr sm
      \<and> val sm 0 0 0 = 0 \<and> (\<forall>pt. output_aux Phi_inv (unit_field 0 (1 / 5) ''sigmoid'') sm pt = NInf)
      \<and> get_certified_radius Phi_inv (\<lambda>F ps. Inr (map (\<lambda>p. (NaN, NaN, NaN)) ps))
           (unit_field 0 (1 / 5) ''sigmoid'') = Inr (radii, loss)
      \<and> val radii 0 0 0 = NInf"
proof -
  obtain sm where sm: "smoothed_grid (unit_field 0 (1 / 5) ''sigmoid'') = Inr sm"
    "nD sm = 1" "nH sm = 1" "nW sm = 1" "val sm 0 0 0 = relu 0"
    using smoothed_unit_field by blast
  have s: "sigma (unit_field 0 (1 / 5) ''sigmoid'') = 1 / 5"
    by (simp add: unit_field_def)
  have o: "output_aux Phi_inv (unit_field 0 (1 / 5) ''sigmoid'') sm pt = NInf" for pt
    by (simp add: output_aux_def grid_sample_unit sm relu_def icdf_def s fl_sign_inf_def)
  show ?thesis
    using sm o
    by (simp add: get_certified_radius_def lattice_unit_field s map_vol_def interpolate2_def
        relu_def icdf_def fl_sign_inf_def)
qed

text \<open>
  Claim C2, as the specification states it, fails: for the one-voxel field built with
  \<^verbatim>\<open>f_init = "zeros"\<close> and the ReLU transition the smoothed field is 0, the value handed
  to the inverse CDF is 0 at every lattice point, and the radius is minus infinity,
  whatever the inverse CDF returns inside the unit interval.
\<close>

theorem radii_not_clamped_counterexample:
  "TCNNGaussianNeRFField_init (1 / 5) ''zeros'' ''relu'' 1 ''sigmoid'' 4 0 ''exponential'' 1 False None
       (\<lambda>i j l. 0) = Inr (unit_field 0 (1 / 5) ''sigmoid'')
   \<and> (\<forall>Phi_inv. \<exists>sm radii loss. smoothed_grid (unit_field 0 (1 / 5) ''sigmoid'') = Inr sm
      \<and> val sm 0 0 0 = 0 \<and> (\<forall>pt. output_aux Phi_inv (unit_field 0 (1 / 5) ''sigmoid'') sm pt = NInf)
      \<and> get_certified_radius Phi_inv (\<lambda>F ps. Inr (map (\<lambda>p. (NaN, NaN, NaN)) ps))
           (unit_field 0 (1 / 5) ''sigmoid'') = Inr (radii, loss)
      \<and> val radii 0 0 0 = NInf)"
  using certified_radius_zero_field by (simp add: init_unit_field_zeros)

text \<open>
  Claim C2, amended. The certified-radius computation applies \<open>sigma \<cdot> \<Phi>\<^sup>-\<^sup>1\<close> to the
  smoothed field as it is, with no clamping: an entry of the radius volume is
  \<open>sigma \<cdot> icdf s\<close> for the entry \<open>s\<close> of the smoothed field that it upsamples. Where
  \<open>s\<close> is exactly 0 or 1 the entry is not finite (minus infinity at 0 and plus infinity
  at 1 for a positive sigma), and where \<open>s\<close> lies outside \<open>[0, 1]\<close> it is NaN. The value
  differentiated at a lattice point is \<open>sigma \<cdot> icdf\<close> of the sample, and is not finite
  where the sample is exactly 0 or 1. Nothing is said about values strictly inside the
  unit interval, where the result is that of the float inverse CDF.
\<close>

theorem radii_not_clamped:
  assumes "smoothed_grid fld = Inr sm"
    and "get_certified_radius Phi_inv autograd fld = Inr (radii, loss)"
  shows "val radii d h w
           = fl_mul (Fin (sigma fld)) (icdf Phi_inv (val sm (d div 2) (h div 2) (w div 2)))
     \<and> (val sm (d div 2) (h div 2) (w div 2) = 0 \<or> val sm (d div 2) (h div 2) (w div 2) = 1
          \<longrightarrow> \<not> is_finite (val radii d h w))
     \<and> (0 < sigma fld \<and> val sm (d div 2) (h div 2) (w div 2) = 0 \<longrightarrow> val radii d h w = NInf)
     \<and> (0 < sigma fld \<and> val sm (d div 2) (h div 2) (w div 2) = 1 \<longrightarrow> val radii d h w = PInf)
     \<and> (val sm (d div 2) (h div 2) (w div 2) < 0 \<or> 1 < val sm (d div 2) (h div 2) (w div 2)
          \<longrightarrow> val radii d h w = NaN)
     \<and> output_aux Phi_inv fld sm pt = fl_mul (Fin (sigma fld)) (icdf Phi_inv (grid_sample sm pt))
     \<and> (grid_sample sm pt = 0 \<or> grid_sample sm pt = 1 \<longrightarrow> \<not> is_finite (output_aux Phi_inv fld sm pt))"
proof -
  have r: "radii = map_vol (\<lambda>s. fl_mul (Fin (sigma fld)) (icdf Phi_inv s)) (interpolate2 sm)"
    using assms by (auto simp: get_certified_radius_def Let_def split: sum.splits)
  have v: "val radii d h w
           = fl_mul (Fin (sigma fld)) (icdf Phi_inv (val sm (d div 2) (h div 2) (w div 2)))"
    by (simp add: r map_vol_def interpolate2_def)
  show ?thesis
    unfolding v output_aux_def
    by (auto simp: scaled_icdf_at_ends)
qed

theorem radii_not_clamped_witness:
  "\<exists>sm radii loss. smoothed_grid (unit_field 0 (1 / 5) ''sigmoid'') = Inr sm
      \<and> get_certified_radius (\<lambda>s. Fin 0) (\<lambda>F ps. Inr (map (\<lambda>p. (NaN, NaN, NaN)) ps))
           (unit_field 0 (1 / 5) ''sigmoid'') = Inr (radii, loss)
      \<and> val sm 0 0 0 = 0
      \<and> val radii 0 0 0 = NInf
      \<and> \<not> is_finite (val radii 0 0 0)
      \<and> \<not> is_finite (output_aux (\<lambda>s. Fin 0) (unit_field 0 (1 / 5) ''sigmoid'') sm (- 1, - 1, - 1))"
proof -
  obtain sm radii loss where h: "smoothed_grid (unit_field 0 (1 / 5) ''sigmoid'') = Inr sm"
      "val sm 0 0 0 = 0"
      "get_certified_radius (\<lambda>s. Fin 0) (\<lambda>F ps. Inr (map (\<lambda>p. (NaN, NaN, NaN)) ps))
           (unit_field 0 (1 / 5) ''sigmoid'') = Inr (radii, loss)"
      "output_aux (\<lambda>s. Fin 0) (unit_field 0 (1 / 5) ''sigmoid'') sm (- 1, - 1, - 1) = NInf"
    using certified_radius_zero_field [of "\<lambda>s. Fin 0"] by blast
  have s: "sigma (unit_field 0 (1 / 5) ''sigmoid'') = 1 / 5"
    by (simp add: unit_field_def)
  have "val radii 0 0 0 = NInf \<and> \<not> is_finite (val radii 0 0 0)
      \<and> \<not> is_finite (output_aux (\<lambda>s. Fin 0) (unit_field 0 (1 / 5) ''sigmoid'') sm (- 1, - 1, - 1))"
    using radii_not_clamped [OF h(1) h(3), of 0 0 0 "(- 1, - 1, - 1)"] h(2) h(4) s
    by (simp add: icdf_def fl_sign_inf_def)
  then show ?thesis
    using h by blast
qed

subsection \<open>The field behind the radius and the field behind the density\<close>













subsection \<open>The backward pass of the grid sample is its gradient\<close>










subsection \<open>The lattice and the eikonal loss\<close>








































end
